theory Spec2Isabelle
  imports Main
begin

section \<open>Python values, exceptions and dictionaries\<close>

text \<open>
  The values that flow through requests: request input, model results, datasets.
  A Python \<open>dict\<close> keeps insertion order and has distinct keys; it is an association
  list here, with the operations below keeping Python's order.
\<close>

datatype pyval =
    VNone
  | VBool bool
  | VInt int
  | VStr string
  | VList "pyval list"
  | VDict "(string \<times> pyval) list"

text \<open>
  Exceptions are values. \<open>MethodNotAllowed\<close> carries \<open>list(supported_methods)\<close>: the
  order of a list made from a Python set is unspecified, so the payload is the set.
  \<open>KeyError\<close> and \<open>IndexError\<close> are the subclasses of \<open>LookupError\<close>;
  \<open>UnexpectedFields\<close>, \<open>MissingFields\<close> and \<open>InvalidFields\<close> are the subclasses of
  \<open>ValidationFailed\<close> with their \<open>fields\<close> attribute.
\<close>

datatype exn =
    MethodNotAllowed "string set"
  | NotFound
  | ValueError
  | TypeError
  | AttributeError
  | LookupError
  | KeyError
  | IndexError
  | URLBuildError
  | InvalidSpecificationError
  | UnexpectedFields "string list"
  | MissingFields "string list"
  | InvalidFields "string list"
  | OtherError string

type_synonym 'a result = "exn + 'a"

fun is_LookupError :: "exn \<Rightarrow> bool" where
  "is_LookupError LookupError = True"
| "is_LookupError KeyError = True"
| "is_LookupError IndexError = True"
| "is_LookupError _ = False"

type_synonym 'v dict = "(string \<times> 'v) list"

text \<open>\<open>d[k] = v\<close>: an existing key keeps its place, a new key goes to the end.\<close>

fun dict_set :: "'v dict \<Rightarrow> string \<Rightarrow> 'v \<Rightarrow> 'v dict" where
  "dict_set [] k v = [(k, v)]"
| "dict_set ((k', v') # d) k v =
     (if k' = k then (k, v) # d else (k', v') # dict_set d k v)"

text \<open>\<open>del d[k]\<close> for a key that is present.\<close>

fun dict_del :: "'v dict \<Rightarrow> string \<Rightarrow> 'v dict" where
  "dict_del [] k = []"
| "dict_del ((k', v') # d) k = (if k' = k then d else (k', v') # dict_del d k)"

text \<open>\<open>d.update(other)\<close>: the items of \<open>other\<close> are stored one after the other.\<close>

definition dict_update :: "'v dict \<Rightarrow> 'v dict \<Rightarrow> 'v dict" where
  "dict_update d other = fold (\<lambda>(k, v) acc. dict_set acc k v) other d"

definition dict_keys :: "'v dict \<Rightarrow> string list" where
  "dict_keys d = map fst d"

text \<open>\<open>str.upper()\<close> on the ASCII letters an HTTP method is made of.\<close>

definition char_upper :: "char \<Rightarrow> char" where
  "char_upper c =
     (case map_of (zip ''abcdefghijklmnopqrstuvwxyz'' ''ABCDEFGHIJKLMNOPQRSTUVWXYZ'') c of
        None \<Rightarrow> c
      | Some u \<Rightarrow> u)"

definition upper :: "string \<Rightarrow> string" where
  "upper s = map char_upper s"

section \<open>The request context\<close>

text \<open>
  \<open>findig.context.ctx\<close> is a context local. The parts the resource code touches are
  \<open>ctx.response\<close>, a mapping with an optional \<open>status\<close> and a \<open>headers\<close> mapping, and
  \<open>url_adapter\<close>, whose \<open>build(name, args)\<close> returns a URL or raises (werkzeug raises
  \<open>BuildError\<close>, imported as \<open>URLBuildError\<close>, when no route can be built). Every
  callback of the application (model operations, the wrapped function, the error handler)
  may change the context, so each takes it and returns it.
\<close>

record ctx =
  response_status :: "int option"
  response_headers :: "string dict"
  url_adapter_build :: "string \<Rightarrow> pyval dict \<Rightarrow> string result"

type_synonym 'a action = "ctx \<Rightarrow> 'a result \<times> ctx"

text \<open>A request: \<open>request.method\<close> and \<open>request.input\<close>.\<close>

record request =
  request_method :: string
  input :: pyval

section \<open>Data models\<close>

text \<open>
  An operation of a model is called with its positional arguments and may change the
  context; a model maps capability names to operations.
\<close>

type_synonym capability = "pyval list \<Rightarrow> pyval action"

type_synonym model = "string \<rightharpoonup> capability"

text \<open>
  Modelled from the spec: \<open>findig.data_model\<close> (\<open>DataModel\<close>, \<open>DictDataModel\<close>,
  \<open>DataSetDataModel\<close> and \<open>compose\<close>) is not under \<open>src/\<close>. The spec describes a data
  model as a capability set over the names read, write, delete and make, each an optional
  operation, whose presence is detected by key lookup; so a model is a partial map from
  capability names to operations, \<open>k in model\<close> is \<open>k \<in> dom model\<close>, and \<open>model[k]\<close>
  of an absent key raises \<open>KeyError\<close> as a mapping does. An operation is called with
  its positional arguments: \<open>model['read']()\<close> with none, \<open>model['write'](data)\<close> with
  one.
\<close>

definition model_call :: "model \<Rightarrow> string \<Rightarrow> pyval list \<Rightarrow> pyval action" where
  "model_call m k args c = (case m k of None \<Rightarrow> (Inl KeyError, c) | Some f \<Rightarrow> f args c)"

text \<open>
  Modelled from the spec: \<open>compose\<close> is not under \<open>src/\<close>. The spec says: the result's
  capability set is the union, with the second operand's capability taking precedence on
  conflict. In \<open>a.compose(b)\<close> the first operand is \<open>a\<close> and the second is \<open>b\<close>.
\<close>

definition compose :: "model \<Rightarrow> model \<Rightarrow> model" where
  "compose a b = a ++ b"

text \<open>
  Modelled from the spec: \<open>DictDataModel\<close> is not under \<open>src/\<close>; it is the model whose
  capabilities are the entries of the given dictionary.
\<close>

definition DictDataModel :: "capability dict \<Rightarrow> model" where
  "DictDataModel d = map_of d"

section \<open>Resources and collections\<close>

text \<open>
  \<open>Resource\<close> and its subclass \<open>Collection\<close> are one record: \<open>collects\<close> is
  \<open>None\<close> for a plain resource and, for a collection, the pair of the collected
  resource and the binding (of the collected resource the code only reads the name).
  \<open>wrapped_params\<close> are the parameter names \<open>inspect.getfullargspec\<close> reports for the
  wrapped function.
\<close>

record resource =
  name :: string
  model :: model
  lazy :: bool
  error_handler :: "exn \<Rightarrow> pyval action"
  wrapped :: "pyval dict \<Rightarrow> pyval action"
  wrapped_params :: "string list"
  collects :: "(string \<times> string dict) option"

definition isinstance_Collection :: "resource \<Rightarrow> bool" where
  "isinstance_Collection r = (collects r \<noteq> None)"

text \<open>\<open>Resource._on_lookup_err\<close>: \<open>raise NotFound\<close>.\<close>

definition on_lookup_err :: "exn \<Rightarrow> pyval action" where
  "on_lookup_err err c = (Inl NotFound, c)"

text \<open>
  Modelled from the spec: \<open>findig.content.ErrorHandler\<close> is not under \<open>src/\<close>. The
  constructor of \<open>Resource\<close> installs, when no \<open>error_handler\<close> is given, an
  \<open>ErrorHandler\<close> on which \<open>_on_lookup_err\<close> is registered for \<open>LookupError\<close>: called
  with a lookup-style failure it calls that function. What it does with any other
  exception is not in the spec and is the parameter \<open>unregistered\<close>.
\<close>

definition default_error_handler :: "(exn \<Rightarrow> pyval action) \<Rightarrow> exn \<Rightarrow> pyval action" where
  "default_error_handler unregistered err c =
     (if is_LookupError err then on_lookup_err err c else unregistered err c)"

text \<open>
  \<open>Resource.compose_model\<close>. \<open>DataSetDataModel\<close> is not under \<open>src/\<close> and is a
  parameter: the model made from a dataset.
\<close>

definition compose_model ::
  "(pyval \<Rightarrow> model) \<Rightarrow> resource \<Rightarrow> pyval dict option \<Rightarrow> model action" where
  "compose_model DataSetDataModel r wrapper_args c =
     (if lazy r then
        (let args = (case wrapper_args of
                       None \<Rightarrow> map (\<lambda>p. (p, VNone)) (wrapped_params r)
                     | Some a \<Rightarrow> a)
         in case wrapped r args c of
              (Inl e, c') \<Rightarrow> (Inl e, c')
            | (Inr dataset, c') \<Rightarrow>
                (Inr (compose (model r) (DataSetDataModel dataset)), c'))
      else (case wrapper_args of
              Some a \<Rightarrow>
                (if ''read'' \<notin> dom (model r) then
                   (Inr (compose (model r)
                      (DictDataModel
                         [(''read'', \<lambda>args. if args = [] then wrapped r a
                                             else (\<lambda>c. (Inl TypeError, c)))])), c)
                 else (Inr (model r), c))
            | None \<Rightarrow> (Inr (model r), c)))"

text \<open>
  \<open>Resource.get_supported_methods\<close> and \<open>Collection.get_supported_methods\<close>; the
  argument \<open>model\<close> is optional in the source.
\<close>

definition Resource_get_supported_methods ::
  "(pyval \<Rightarrow> model) \<Rightarrow> resource \<Rightarrow> model option \<Rightarrow> (string set) action" where
  "Resource_get_supported_methods DataSetDataModel r model_arg c =
     (case (case model_arg of
              None \<Rightarrow> compose_model DataSetDataModel r None c
            | Some m \<Rightarrow> (Inr m, c)) of
        (Inl e, c') \<Rightarrow> (Inl e, c')
      | (Inr m, c') \<Rightarrow>
          (let supported_methods = {''GET''};
               supported_methods = (if ''delete'' \<in> dom m
                                    then insert ''DELETE'' supported_methods
                                    else supported_methods);
               supported_methods = (if ''write'' \<in> dom m
                                    then insert ''PUT'' supported_methods
                                    else supported_methods)
           in (Inr supported_methods, c')))"

definition Collection_get_supported_methods ::
  "(pyval \<Rightarrow> model) \<Rightarrow> resource \<Rightarrow> model option \<Rightarrow> (string set) action" where
  "Collection_get_supported_methods DataSetDataModel r model_arg c =
     (case (case model_arg of
              None \<Rightarrow> compose_model DataSetDataModel r None c
            | Some m \<Rightarrow> (Inr m, c)) of
        (Inl e, c') \<Rightarrow> (Inl e, c')
      | (Inr m, c') \<Rightarrow>
          (case Resource_get_supported_methods DataSetDataModel r (Some m) c' of
             (Inl e, c'') \<Rightarrow> (Inl e, c'')
           | (Inr supported, c'') \<Rightarrow>
               (Inr (if ''make'' \<in> dom m then insert ''POST'' supported else supported),
                c'')))"

text \<open>Method lookup on \<open>self\<close>: a collection overrides the method of \<open>Resource\<close>.\<close>

definition get_supported_methods ::
  "(pyval \<Rightarrow> model) \<Rightarrow> resource \<Rightarrow> model option \<Rightarrow> (string set) action" where
  "get_supported_methods DataSetDataModel r =
     (if isinstance_Collection r then Collection_get_supported_methods DataSetDataModel r
      else Resource_get_supported_methods DataSetDataModel r)"

text \<open>
  \<open>Resource._handle_request_with_model\<close>. \<open>self.get_supported_methods\<close> is looked
  up on \<open>self\<close>, so a collection that falls through to this method uses its own
  override.
\<close>

definition Resource_handle_request_with_model ::
  "(pyval \<Rightarrow> model) \<Rightarrow> resource \<Rightarrow> request \<Rightarrow> string \<Rightarrow> model \<Rightarrow> pyval action" where
  "Resource_handle_request_with_model DataSetDataModel r req meth m c =
     (case get_supported_methods DataSetDataModel r (Some m) c of
        (Inl e, c') \<Rightarrow> (Inl e, c')
      | (Inr supported_methods, c') \<Rightarrow>
          (if meth \<notin> supported_methods \<and> meth \<noteq> ''HEAD'' then
             (Inl (MethodNotAllowed supported_methods), c')
           else if meth = ''GET'' \<or> meth = ''HEAD'' then model_call m ''read'' [] c'
           else if meth = ''DELETE'' then model_call m ''delete'' [] c'
           else if meth = ''PUT'' then model_call m ''write'' [input req] c'
           else (Inl ValueError, c')))"

text \<open>\<open>d.setdefault(k, v)\<close>.\<close>

definition dict_setdefault :: "'v dict \<Rightarrow> string \<Rightarrow> 'v \<Rightarrow> 'v dict" where
  "dict_setdefault d k v = (case map_of d k of None \<Rightarrow> dict_set d k v | Some _ \<Rightarrow> d)"

text \<open>
  The dictionary comprehension of \<open>Collection._handle_request_with_model\<close> that renames
  the fields of the created item through the binding.
\<close>

definition bind_url_args :: "string dict \<Rightarrow> pyval dict \<Rightarrow> pyval dict" where
  "bind_url_args bind_args ret_data =
     fold (\<lambda>(k, v) acc.
             dict_set acc (case map_of bind_args k of Some b \<Rightarrow> b | None \<Rightarrow> k) v)
          ret_data []"

text \<open>
  \<open>Collection._handle_request_with_model\<close>. Only a collection has the attribute
  \<open>collects\<close>.
\<close>

definition Collection_handle_request_with_model ::
  "(pyval \<Rightarrow> model) \<Rightarrow> resource \<Rightarrow> request \<Rightarrow> string \<Rightarrow> model \<Rightarrow> pyval action" where
  "Collection_handle_request_with_model DataSetDataModel r req meth m c =
     (if meth = ''POST'' \<and> ''make'' \<in> dom m then
        (case model_call m ''make'' [input req] c of
           (Inl e, c1) \<Rightarrow> (Inl e, c1)
         | (Inr ret_data, c1) \<Rightarrow>
             (let c2 = c1\<lparr>response_status :=
                          Some (case response_status c1 of None \<Rightarrow> 201 | Some s \<Rightarrow> s)\<rparr>
              in case ret_data of
                   VDict items \<Rightarrow>
                     (case collects r of
                        None \<Rightarrow> (Inl AttributeError, c2)
                      | Some (child, bind_args) \<Rightarrow>
                          (case url_adapter_build c2 child (bind_url_args bind_args items) of
                             Inl e \<Rightarrow>
                               (if e = URLBuildError then (Inr ret_data, c2) else (Inl e, c2))
                           | Inr url \<Rightarrow>
                               (Inr ret_data,
                                c2\<lparr>response_headers :=
                                     dict_setdefault (response_headers c2) ''Location'' url\<rparr>)))
                 | _ \<Rightarrow> (Inr ret_data, c2)))
      else Resource_handle_request_with_model DataSetDataModel r req meth m c)"

definition handle_request_with_model ::
  "(pyval \<Rightarrow> model) \<Rightarrow> resource \<Rightarrow> request \<Rightarrow> string \<Rightarrow> model \<Rightarrow> pyval action" where
  "handle_request_with_model DataSetDataModel r =
     (if isinstance_Collection r then Collection_handle_request_with_model DataSetDataModel r
      else Resource_handle_request_with_model DataSetDataModel r)"

text \<open>\<open>Resource.handle_request\<close>: the \<open>try\<close> block and its \<open>except BaseException\<close>.\<close>

definition handle_request ::
  "(pyval \<Rightarrow> model) \<Rightarrow> resource \<Rightarrow> request \<Rightarrow> pyval dict option \<Rightarrow> pyval action" where
  "handle_request DataSetDataModel r req wrapper_args c =
     (let meth = upper (request_method req)
      in case compose_model DataSetDataModel r wrapper_args c of
           (Inl err, c1) \<Rightarrow> error_handler r err c1
         | (Inr m, c1) \<Rightarrow>
             (case handle_request_with_model DataSetDataModel r req meth m c1 of
                (Inl err, c2) \<Rightarrow> error_handler r err c2
              | (Inr v, c2) \<Rightarrow> (Inr v, c2)))"

section \<open>The validator\<close>

text \<open>
  A converter specification as \<open>enforce\<close> receives it and as the tables hold it. The
  constructors follow the \<open>isinstance\<close> tests of the source: \<open>Str\<close> is a \<open>str\<close>,
  \<open>Lst\<close> a \<open>list\<close>, \<open>Callable\<close> a callable, \<open>ConverterSpec\<close> the named tuple
  \<open>converter_spec(name, args)\<close>, \<open>Prepared\<close> the tuple of a compiled regular
  expression (its \<open>fullmatch\<close> as a predicate) and a converter (its \<open>to_python\<close>),
  \<open>PyFalse\<close> the object \<open>False\<close>, and \<open>PyObj\<close> any other object (a number,
  \<open>None\<close>, a dictionary).
\<close>

datatype item_spec =
    Str string
  | Lst "item_spec list"
  | Callable "pyval \<Rightarrow> pyval result"
  | ConverterSpec string "string option"
  | Prepared "string \<Rightarrow> bool" "string \<Rightarrow> pyval result"
  | PyFalse
  | PyObj pyval

text \<open>
  \<open>_converter_re.fullmatch\<close>: an identifier, then nothing or a parenthesised argument
  text without a line break that reaches the end of the string. The result is the pair
  of the groups \<open>name\<close> and \<open>args\<close>.
\<close>

definition name_start_chars :: "char set" where
  "name_start_chars =
     set (''abcdefghijklmnopqrstuvwxyz'' @ ''ABCDEFGHIJKLMNOPQRSTUVWXYZ'' @ ''_'')"

definition name_chars :: "char set" where
  "name_chars = name_start_chars \<union> set ''0123456789''"

definition converter_re_fullmatch :: "string \<Rightarrow> (string \<times> string option) option" where
  "converter_re_fullmatch s =
     (case s of
        [] \<Rightarrow> None
      | c # cs \<Rightarrow>
          (if c \<notin> name_start_chars then None
           else (let nm = c # takeWhile (\<lambda>x. x \<in> name_chars) cs;
                     rest = dropWhile (\<lambda>x. x \<in> name_chars) cs
                 in if rest = [] then Some (nm, None)
                    else if hd rest = CHR ''('' \<and> 2 \<le> length rest \<and> last rest = CHR '')''
                            \<and> CHR 0x0A \<notin> set (butlast (tl rest))
                    then Some (nm, Some (butlast (tl rest)))
                    else None)))"

text \<open>The local function \<open>validate_item_spec\<close> of \<open>Validator.__register_spec\<close>.\<close>

fun validate_item_spec :: "item_spec \<Rightarrow> item_spec" where
  "validate_item_spec (Str s) =
     (case converter_re_fullmatch s of
        Some (nm, args) \<Rightarrow> ConverterSpec nm args
      | None \<Rightarrow> PyFalse)"
| "validate_item_spec (Lst [x]) = Lst [validate_item_spec x]"
| "validate_item_spec (Lst _) = PyFalse"
| "validate_item_spec (Callable f) = Callable f"
| "validate_item_spec _ = PyFalse"

record validator =
  include_collections :: bool
  validation_specs :: "string option \<rightharpoonup> item_spec dict"
  restriction_specs :: "string \<rightharpoonup> bool dict"
  strip_extras :: "string \<rightharpoonup> bool"

text \<open>\<open>Validator.__init__\<close> without an application.\<close>

definition Validator :: "bool \<Rightarrow> validator" where
  "Validator incl =
     \<lparr>include_collections = incl, validation_specs = Map.empty,
      restriction_specs = Map.empty, strip_extras = Map.empty\<rparr>"

text \<open>
  The loop of \<open>Validator.__register_spec\<close> over \<open>spec.items()\<close>: it stores each
  normalised specification back into \<open>spec\<close>, and raises when \<open>item_spec is False\<close>.
\<close>

fun register_loop :: "item_spec dict \<Rightarrow> item_spec dict \<Rightarrow> item_spec dict result" where
  "register_loop [] spec = Inr spec"
| "register_loop ((field, item_spec) # rest) spec =
     (let new_item_spec = validate_item_spec item_spec
      in if item_spec = PyFalse then Inl InvalidSpecificationError
         else register_loop rest (dict_set spec field new_item_spec))"

text \<open>
  \<open>Validator.__register_spec\<close>; the key \<open>None\<close> is the global table. The \<open>else\<close> of
  the loop runs when the loop did not raise.
\<close>

definition register_spec :: "validator \<Rightarrow> string option \<Rightarrow> item_spec dict \<Rightarrow> validator result" where
  "register_spec v key spec =
     (case register_loop spec spec of
        Inl e \<Rightarrow> Inl e
      | Inr spec' \<Rightarrow>
          Inr (v\<lparr>validation_specs :=
                   (validation_specs v)
                     (key \<mapsto> dict_update
                               (case validation_specs v key of None \<Rightarrow> [] | Some d \<Rightarrow> d)
                               spec')\<rparr>))"

definition enforce :: "validator \<Rightarrow> resource \<Rightarrow> item_spec dict \<Rightarrow> validator result" where
  "enforce v r validator_spec = register_spec v (Some (name r)) validator_spec"


text \<open>
  \<open>conv_field\<close> of \<open>Validator.restrict\<close>. The pattern \<open>^(\**)\1(\*?)\<close> always matches:
  of \<open>n\<close> leading asterisks the first group takes \<open>n div 2\<close>, the back reference as
  many, and the last group the one that is left when \<open>n\<close> is odd; the substitution
  keeps the first group.
\<close>

definition conv_field :: "string \<Rightarrow> string \<times> bool" where
  "conv_field field_name =
     (let n = length (takeWhile (\<lambda>c. c = CHR ''*'') field_name)
      in (replicate (n div 2) (CHR ''*'') @ drop n field_name, odd n))"

text \<open>\<open>Validator.restrict\<close> called with a resource: the local function \<open>restrict_to\<close>.\<close>

definition restrict :: "validator \<Rightarrow> resource \<Rightarrow> string list \<Rightarrow> bool \<Rightarrow> validator" where
  "restrict v r field_names strip_extra =
     (let allowed = map conv_field field_names
      in v\<lparr>restriction_specs :=
              (restriction_specs v)
                (name r \<mapsto> dict_update
                              (case restriction_specs v (name r) of None \<Rightarrow> [] | Some d \<Rightarrow> d)
                              allowed),
            strip_extras := (strip_extras v)(name r \<mapsto> strip_extra)\<rparr>)"

text \<open>
  \<open>_ContainerWrapper\<close> over a mapping (\<open>self._c = dict(container)\<close>) and over a sequence
  (\<open>self._c = list(container)\<close>); a key is a field name or an index. The request input
  is a mapping here; the branches of the wrapper for a werkzeug \<open>MultiDict\<close> and for
  an object with attributes are not part of this development.
\<close>

datatype container = CMapping "pyval dict" | CSequence "pyval list"

datatype key = KStr string | KInt nat

fun container_getitem :: "container \<Rightarrow> key \<Rightarrow> pyval result" where
  "container_getitem (CMapping d) (KStr k) =
     (case map_of d k of None \<Rightarrow> Inl KeyError | Some v \<Rightarrow> Inr v)"
| "container_getitem (CMapping d) (KInt i) = Inl KeyError"
| "container_getitem (CSequence xs) (KInt i) =
     (if i < length xs then Inr (xs ! i) else Inl IndexError)"
| "container_getitem (CSequence xs) (KStr k) = Inl TypeError"

text \<open>
  \<open>isinstance(l, Sequence)\<close> and \<open>list(l)\<close>: lists and strings are sequences, and the
  items of a string are its characters.
\<close>

fun sequence_items :: "pyval \<Rightarrow> pyval list option" where
  "sequence_items (VList xs) = Some xs"
| "sequence_items (VStr s) = Some (map (\<lambda>ch. VStr [ch]) s)"
| "sequence_items _ = None"

text \<open>\<open>_ContainerWrapper.getlist\<close> followed by the wrapping of its result.\<close>

definition container_getlist :: "container \<Rightarrow> key \<Rightarrow> pyval list result" where
  "container_getlist data k =
     (case container_getitem data k of
        Inl e \<Rightarrow> Inl e
      | Inr l \<Rightarrow> (case sequence_items l of None \<Rightarrow> Inl ValueError | Some xs \<Rightarrow> Inr xs))"

text \<open>\<open>Validator.__check_item\<close>, and its loop over the items of a list field.\<close>

fun check_item :: "container \<Rightarrow> key \<Rightarrow> item_spec \<Rightarrow> pyval result"
  and check_list :: "container \<Rightarrow> item_spec \<Rightarrow> nat list \<Rightarrow> pyval list \<Rightarrow> pyval list result"
where
  "check_item data k (Callable f) =
     (case container_getitem data k of Inl e \<Rightarrow> Inl e | Inr v \<Rightarrow> f v)"
| "check_item data k (Lst []) =
     (case container_getlist data k of Inl e \<Rightarrow> Inl e | Inr xs \<Rightarrow> Inl IndexError)"
| "check_item data k (Lst (child_spec # others)) =
     (case container_getlist data k of
        Inl e \<Rightarrow> Inl e
      | Inr xs \<Rightarrow>
          (case check_list (CSequence xs) child_spec [0..<length xs] [] of
             Inl e \<Rightarrow> Inl e
           | Inr converted_items \<Rightarrow> Inr (VList converted_items)))"
| "check_item data k (Prepared regexp_fullmatch to_python) =
     (case container_getitem data k of
        Inl e \<Rightarrow> Inl e
      | Inr (VStr val) \<Rightarrow> (if \<not> regexp_fullmatch val then Inl ValueError else to_python val)
      | Inr _ \<Rightarrow> Inl TypeError)"
| "check_item data k (ConverterSpec nm args) =
     (case container_getitem data k of Inl e \<Rightarrow> Inl e | Inr val \<Rightarrow> Inl AttributeError)"
| "check_item data k _ = Inl InvalidSpecificationError"
| "check_list items child_spec [] converted_items = Inr converted_items"
| "check_list items child_spec (i # rest) converted_items =
     (case check_item items (KInt i) child_spec of
        Inl e \<Rightarrow> Inl e
      | Inr v \<Rightarrow> check_list items child_spec rest (converted_items @ [v]))"

text \<open>
  \<open>Validator.__handle_restrictions\<close> on a wrapped mapping, with \<open>ctx.resource\<close> as
  the argument \<open>r\<close>. The result is the wrapped mapping after the deletions.
\<close>

definition handle_restrictions :: "validator \<Rightarrow> resource \<Rightarrow> pyval dict \<Rightarrow> pyval dict result" where
  "handle_restrictions v r data =
     (let strip = (case strip_extras v (name r) of None \<Rightarrow> False | Some b \<Rightarrow> b);
          restrictions = restriction_specs v (name r);
          (restrictions, strip) =
            (case collects r of
               Some (collected, binding) \<Rightarrow>
                 (if restrictions = None \<and> include_collections v then
                    (Some (case restriction_specs v collected of None \<Rightarrow> [] | Some d \<Rightarrow> d),
                     (case strip_extras v collected of None \<Rightarrow> False | Some b \<Rightarrow> b))
                  else (restrictions, strip))
             | None \<Rightarrow> (restrictions, strip))
      in case restrictions of
           None \<Rightarrow> Inr data
         | Some allowed \<Rightarrow>
             (let extras = filter (\<lambda>field. field \<notin> set (dict_keys allowed)) (dict_keys data)
              in case (if extras \<noteq> [] \<and> strip then
                         Inr (fold (\<lambda>field d. dict_del d field) extras data)
                       else if extras \<noteq> [] then Inl (UnexpectedFields extras)
                       else Inr data) of
                   Inl e \<Rightarrow> Inl e
                 | Inr data' \<Rightarrow>
                     (let missing = map fst (filter (\<lambda>(field, required).
                                      required \<and> field \<notin> set (dict_keys data')) allowed)
                      in if missing \<noteq> [] then Inl (MissingFields missing) else Inr data')))"

text \<open>The merge of the three tables at the start of \<open>Validator.validate\<close>.\<close>

definition merged_spec :: "validator \<Rightarrow> resource \<Rightarrow> item_spec dict" where
  "merged_spec v r =
     (let spec = dict_update [] (case validation_specs v None of None \<Rightarrow> [] | Some d \<Rightarrow> d);
          spec = (case collects r of
                    Some (collected, binding) \<Rightarrow>
                      (if include_collections v then
                         dict_update spec
                           (case validation_specs v (Some collected) of
                              None \<Rightarrow> [] | Some d \<Rightarrow> d)
                       else spec)
                  | None \<Rightarrow> spec)
      in dict_update spec
           (case validation_specs v (Some (name r)) of None \<Rightarrow> [] | Some d \<Rightarrow> d))"

text \<open>
  The conversion loop of \<open>Validator.validate\<close> over \<open>spec.items()\<close>, with the wrapped
  data and \<open>conversion_errs\<close> as its state.
\<close>

fun convert_loop ::
  "item_spec dict \<Rightarrow> pyval dict \<Rightarrow> string list \<Rightarrow> (pyval dict \<times> string list) result" where
  "convert_loop [] data conversion_errs = Inr (data, conversion_errs)"
| "convert_loop ((field, field_spec) # rest) data conversion_errs =
     (if field \<notin> set (dict_keys data) then convert_loop rest data conversion_errs
      else (case check_item (CMapping data) (KStr field) field_spec of
              Inl e \<Rightarrow>
                (if e = InvalidSpecificationError then Inl e
                 else convert_loop rest data (conversion_errs @ [field]))
            | Inr converted \<Rightarrow>
                convert_loop rest (dict_set data field converted) conversion_errs))"

text \<open>
  \<open>Validator.validate\<close> for an input that is a mapping, with \<open>ctx.resource\<close> as the
  argument \<open>r\<close>; \<open>unwrap\<close> of a wrapped mapping returns the dictionary.
\<close>

definition validate :: "validator \<Rightarrow> resource \<Rightarrow> pyval dict \<Rightarrow> pyval dict result" where
  "validate v r data =
     (case handle_restrictions v r data of
        Inl e \<Rightarrow> Inl e
      | Inr wrapped_data \<Rightarrow>
          (case convert_loop (merged_spec v r) wrapped_data [] of
             Inl e \<Rightarrow> Inl e
           | Inr (data', conversion_errs) \<Rightarrow>
               (if conversion_errs \<noteq> [] then Inl (InvalidFields conversion_errs)
                else Inr data')))"

section \<open>Example inputs\<close>

text \<open>
  Concrete inputs at which the theorems below are evaluated. The context has no status
  and no headers yet, and its URL adapter finds no route.
\<close>

definition ex_ctx :: ctx where
  "ex_ctx =
     \<lparr>response_status = None, response_headers = [],
      url_adapter_build = (\<lambda>endpoint args. Inl URLBuildError)\<rparr>"

text \<open>An error handler that raises again every exception nothing is registered for.\<close>

definition reraise :: "exn \<Rightarrow> pyval action" where
  "reraise err c = (Inl err, c)"

text \<open>A dataset model with the one capability of reading the dataset.\<close>

definition ex_DataSetDataModel :: "pyval \<Rightarrow> model" where
  "ex_DataSetDataModel dataset = [''read'' \<mapsto> (\<lambda>args c. (Inr dataset, c))]"

text \<open>
  \<open>Resource(name='item')\<close>: the defaults of the constructor are an empty model, the
  default error handler and a wrapped function that returns \<open>{}\<close>.
\<close>

definition ex_resource :: resource where
  "ex_resource =
     \<lparr>name = ''item'', model = Map.empty, lazy = False,
      error_handler = default_error_handler reraise,
      wrapped = (\<lambda>args c. (Inr (VDict []), c)), wrapped_params = [],
      collects = None\<rparr>"

text \<open>A converter for strings of decimal digits, in the place of Python's \<open>int\<close>.\<close>

fun digits_value :: "string \<Rightarrow> nat \<Rightarrow> nat option" where
  "digits_value [] acc = Some acc"
| "digits_value (ch # rest) acc =
     (case map_of (zip ''0123456789'' [0, 1, 2, 3, 4, 5, 6, 7, 8, 9]) ch of
        None \<Rightarrow> None
      | Some d \<Rightarrow> digits_value rest (10 * acc + d))"

fun ex_int :: "pyval \<Rightarrow> pyval result" where
  "ex_int (VStr s) =
     (if s = [] then Inl ValueError
      else (case digits_value s 0 of None \<Rightarrow> Inl ValueError | Some n \<Rightarrow> Inr (VInt (int n))))"
| "ex_int (VInt i) = Inr (VInt i)"
| "ex_int _ = Inl TypeError"

text \<open>A model whose \<open>read\<close> raises \<open>MethodNotAllowed\<close> itself, and a resource with it.\<close>

definition ex_refusing_model :: model where
  "ex_refusing_model = [''read'' \<mapsto> (\<lambda>args c. (Inl (MethodNotAllowed {''GET''}), c))]"

definition ex_refusing_resource :: resource where
  "ex_refusing_resource = ex_resource\<lparr>model := ex_refusing_model\<rparr>"

definition ex_head_request :: request where
  "ex_head_request = \<lparr>request_method = ''head'', input = VNone\<rparr>"

text \<open>A model that can only be read, and a request that writes.\<close>

definition ex_readonly_model :: model where
  "ex_readonly_model = [''read'' \<mapsto> (\<lambda>args c. (Inr (VStr ''data''), c))]"

definition ex_put_request :: request where
  "ex_put_request = \<lparr>request_method = ''put'', input = VDict [(''id'', VStr ''1'')]\<rparr>"

definition ex_readonly_resource :: resource where
  "ex_readonly_resource = ex_resource\<lparr>model := ex_readonly_model\<rparr>"

definition ex_get_request :: request where
  "ex_get_request = \<lparr>request_method = ''GET'', input = VNone\<rparr>"

text \<open>A model whose \<open>read\<close> looks up a key that is not there.\<close>

definition ex_missing_model :: model where
  "ex_missing_model = [''read'' \<mapsto> (\<lambda>args c. (Inl KeyError, c))]"

definition ex_missing_resource :: resource where
  "ex_missing_resource = ex_resource\<lparr>model := ex_missing_model\<rparr>"


definition ex_failing_lazy_resource :: resource where
  "ex_failing_lazy_resource =
     ex_resource\<lparr>lazy := True, wrapped := (\<lambda>args c. (Inl KeyError, c))\<rparr>"

text \<open>An error handler that turns every exception into a response.\<close>

definition ex_quiet_handler :: "exn \<Rightarrow> pyval action" where
  "ex_quiet_handler err c = (Inr (VStr ''error''), c)"

definition ex_quiet_resource :: resource where
  "ex_quiet_resource = ex_resource\<lparr>error_handler := ex_quiet_handler\<rparr>"

text \<open>
  A collection of \<open>item\<close> resources whose binding sends the field \<open>id\<close> to the URL
  argument \<open>item_id\<close>, with a \<open>make\<close> that returns \<open>{'id': 7}\<close>; a second one whose
  \<open>make\<close> returns the number 7; a \<open>POST\<close> request; and a context whose URL adapter
  finds a route.
\<close>

definition ex_make_model :: model where
  "ex_make_model = [''make'' \<mapsto> (\<lambda>args c. (Inr (VDict [(''id'', VInt 7)]), c))]"

definition ex_collection :: resource where
  "ex_collection =
     ex_resource\<lparr>name := ''items'', model := ex_make_model,
                  collects := Some (''item'', [(''id'', ''item_id'')])\<rparr>"

definition ex_make_number_model :: model where
  "ex_make_number_model = [''make'' \<mapsto> (\<lambda>args c. (Inr (VInt 7), c))]"

definition ex_make_failing_model :: model where
  "ex_make_failing_model = [''make'' \<mapsto> (\<lambda>args c. (Inl ValueError, c))]"

definition ex_post_request :: request where
  "ex_post_request = \<lparr>request_method = ''POST'', input = VDict [(''name'', VStr ''a'')]\<rparr>"

definition ex_routed_ctx :: ctx where
  "ex_routed_ctx = ex_ctx\<lparr>url_adapter_build := (\<lambda>endpoint args. Inr ''/items/7'')\<rparr>"






text \<open>
  \<open>restrict(resource, "*id", "name", strip_extra=False)\<close> and the same with
  \<open>strip_extra=True\<close>, on a fresh validator.
\<close>

definition ex_restricting_validator :: validator where
  "ex_restricting_validator = restrict (Validator True) ex_resource [''*id'', ''name''] False"

definition ex_stripping_validator :: validator where
  "ex_stripping_validator = restrict (Validator True) ex_resource [''*id'', ''name''] True"



section \<open>Supported methods\<close>

text \<open>
  C1 (as the code has it). For every resource and every model, \<open>get_supported_methods\<close>
  returns, without touching the context, a set that contains \<open>GET\<close> and does not
  contain \<open>HEAD\<close>; it contains \<open>DELETE\<close> exactly when the model has \<open>delete\<close>,
  \<open>PUT\<close> exactly when the model has \<open>write\<close>, and \<open>POST\<close> exactly when the
  resource is a collection and the model has \<open>make\<close>. When the model is omitted, the
  set is the one of the model that \<open>compose_model\<close> returns without arguments.
\<close>

theorem get_supported_methods_members:
  "(\<exists>S. get_supported_methods D r (Some m) c = (Inr S, c)
        \<and> ''GET'' \<in> S \<and> ''HEAD'' \<notin> S
        \<and> (''DELETE'' \<in> S \<longleftrightarrow> ''delete'' \<in> dom m)
        \<and> (''PUT'' \<in> S \<longleftrightarrow> ''write'' \<in> dom m)
        \<and> (''POST'' \<in> S \<longleftrightarrow> isinstance_Collection r \<and> ''make'' \<in> dom m))
   \<and> (compose_model D r None c = (Inr m, c') \<longrightarrow>
        get_supported_methods D r None c = get_supported_methods D r (Some m) c')"
  by (simp add: get_supported_methods_def Collection_get_supported_methods_def
        Resource_get_supported_methods_def Let_def)

theorem get_supported_methods_members_witness:
  "compose_model ex_DataSetDataModel ex_resource None ex_ctx = (Inr Map.empty, ex_ctx)
   \<and> get_supported_methods ex_DataSetDataModel ex_resource None ex_ctx
       = get_supported_methods ex_DataSetDataModel ex_resource (Some Map.empty) ex_ctx"
proof -
  have h: "compose_model ex_DataSetDataModel ex_resource None ex_ctx = (Inr Map.empty, ex_ctx)"
    by (simp add: compose_model_def ex_resource_def)
  from get_supported_methods_members
         [of ex_DataSetDataModel ex_resource Map.empty ex_ctx ex_ctx] h
  show ?thesis by blast
qed

text \<open>
  C1 as the spec states it asks for \<open>HEAD\<close> in the set. For a resource with an empty
  model the set is \<open>{GET}\<close>.
\<close>

theorem get_supported_methods_no_HEAD:
  "fst (get_supported_methods ex_DataSetDataModel ex_resource (Some Map.empty) ex_ctx)
     = Inr {''GET''}
   \<and> ''HEAD'' \<notin> {''GET''}"
  by (simp add: get_supported_methods_def Resource_get_supported_methods_def
        isinstance_Collection_def ex_resource_def)

section \<open>The method test of the dispatch\<close>

lemma get_supported_methods_Some:
  "get_supported_methods D r (Some m) c =
     (Inr {x. x = ''GET'' \<or> x = ''DELETE'' \<and> ''delete'' \<in> dom m \<or> x = ''PUT'' \<and> ''write'' \<in> dom m
              \<or> x = ''POST'' \<and> isinstance_Collection r \<and> ''make'' \<in> dom m}, c)"
  by (auto simp add: get_supported_methods_def Collection_get_supported_methods_def
        Resource_get_supported_methods_def Let_def)

lemma Resource_rejects:
  "get_supported_methods D r (Some m) c = (Inr S, c) \<Longrightarrow> meth \<notin> S \<Longrightarrow> meth \<noteq> ''HEAD'' \<Longrightarrow>
   Resource_handle_request_with_model D r req meth m c = (Inl (MethodNotAllowed S), c)"
  by (simp add: Resource_handle_request_with_model_def)

lemma post_make_supported:
  assumes "get_supported_methods D r (Some m) c = (Inr S, c)" "isinstance_Collection r" "''make'' \<in> dom m"
  shows "''POST'' \<in> S"
  using assms unfolding get_supported_methods_Some by auto

lemma rejects:
  assumes "get_supported_methods D r (Some m) c = (Inr S, c)" "meth \<notin> S" "meth \<noteq> ''HEAD''"
  shows "handle_request_with_model D r req meth m c = (Inl (MethodNotAllowed S), c)"
proof (cases "meth = ''POST'' \<and> isinstance_Collection r \<and> ''make'' \<in> dom m")
  case True
  with assms post_make_supported[OF assms(1)] show ?thesis by blast
next
  case False
  then show ?thesis using Resource_rejects[OF assms, where req=req]
    by (auto simp add: handle_request_with_model_def Collection_handle_request_with_model_def)
qed

lemma Resource_accepts:
  assumes "get_supported_methods D r (Some m) c = (Inr S, c)" "meth \<in> S \<or> meth = ''HEAD''"
     "meth \<noteq> ''POST''"
  shows "Resource_handle_request_with_model D r req meth m c =
     (if meth = ''GET'' \<or> meth = ''HEAD'' then model_call m ''read'' [] c
      else if meth = ''DELETE'' then model_call m ''delete'' [] c
      else model_call m ''write'' [input req] c)"
proof -
  have "meth = ''GET'' \<or> meth = ''HEAD'' \<or> meth = ''DELETE'' \<or> meth = ''PUT''"
    using assms unfolding get_supported_methods_Some by auto
  then show ?thesis using assms(1,2)
    by (auto simp: Resource_handle_request_with_model_def)
qed


lemma make_path_not_refused:
  assumes nomna: "\<forall>k args S0. fst (model_call m k args c) \<noteq> Inl (MethodNotAllowed S0)"
      and nobuild: "\<forall>endpoint args S0.
             url_adapter_build (snd (model_call m ''make'' [input req] c)) endpoint args
               \<noteq> Inl (MethodNotAllowed S0)"
      and "meth = ''POST''" "''make'' \<in> dom m"
  shows "fst (Collection_handle_request_with_model D r req meth m c) \<noteq> Inl (MethodNotAllowed S')"
proof -
  obtain res c1 where mk: "model_call m ''make'' [input req] c = (res, c1)"
    by (cases "model_call m ''make'' [input req] c") 
  have "res \<noteq> Inl (MethodNotAllowed S')" using nomna mk by (metis fst_conv)
  moreover have "url_adapter_build c1 endpoint args \<noteq> Inl (MethodNotAllowed S0)" for endpoint args S0
    using nobuild mk by simp
  ultimately show ?thesis using assms(3,4) mk
    by (auto simp add: Collection_handle_request_with_model_def Let_def
          split: sum.splits pyval.splits option.splits prod.splits)
qed

text \<open>
  C2 (as the code has it). Let \<open>S\<close> be the supported set of the composed model. When
  the case-normalised method is not in \<open>S\<close> and is not \<open>HEAD\<close>, the dispatch raises
  \<open>MethodNotAllowed\<close> carrying \<open>S\<close>, and \<open>handle_request\<close> hands exactly that
  condition to the error handler. When neither the operations of the model nor the URL
  adapter raise \<open>MethodNotAllowed\<close> themselves, the dispatch yields a
  \<open>MethodNotAllowed\<close> if and only if the method is not in \<open>S\<close> and is not \<open>HEAD\<close>.
  A \<open>PUT\<close> on a model without \<open>write\<close> is refused, and the outcome of a \<open>HEAD\<close>
  request is the outcome of \<open>model['read']()\<close>.
\<close>

theorem method_not_allowed_when_unsupported:
  "\<exists>S. get_supported_methods D r (Some m) c = (Inr S, c)
     \<and> (meth \<notin> S \<and> meth \<noteq> ''HEAD'' \<longrightarrow>
          handle_request_with_model D r req meth m c = (Inl (MethodNotAllowed S), c))
     \<and> ((\<forall>k args S0. fst (model_call m k args c) \<noteq> Inl (MethodNotAllowed S0))
          \<and> (\<forall>endpoint args S0.
                url_adapter_build (snd (model_call m ''make'' [input req] c)) endpoint args
                  \<noteq> Inl (MethodNotAllowed S0))
        \<longrightarrow> ((\<exists>S'. fst (handle_request_with_model D r req meth m c) = Inl (MethodNotAllowed S'))
              \<longleftrightarrow> (meth \<notin> S \<and> meth \<noteq> ''HEAD'')))
     \<and> (''write'' \<notin> dom m \<longrightarrow>
          handle_request_with_model D r req ''PUT'' m c = (Inl (MethodNotAllowed S), c))
     \<and> handle_request_with_model D r req ''HEAD'' m c = model_call m ''read'' [] c
     \<and> (compose_model D r wrapper_args c0 = (Inr m, c) \<and> meth = upper (request_method req)
          \<and> meth \<notin> S \<and> meth \<noteq> ''HEAD'' \<longrightarrow>
          handle_request D r req wrapper_args c0 = error_handler r (MethodNotAllowed S) c)"
proof -
  obtain S where S: "get_supported_methods D r (Some m) c = (Inr S, c)"
    using get_supported_methods_Some by blast
  have rej: "handle_request_with_model D r req meth' m c = (Inl (MethodNotAllowed S), c)"
    if "meth' \<notin> S" "meth' \<noteq> ''HEAD''" for meth'
    using rejects[OF S that] .
  have put: "''PUT'' \<notin> S" if "''write'' \<notin> dom m"
    using S that unfolding get_supported_methods_Some by auto
  have nonpost: "handle_request_with_model D r req meth m c = Resource_handle_request_with_model D r req meth m c"
    if "meth \<noteq> ''POST''"
    using that by (simp add: handle_request_with_model_def Collection_handle_request_with_model_def)
  have hd: "handle_request_with_model D r req ''HEAD'' m c = model_call m ''read'' [] c"
    using Resource_accepts[OF S, of "''HEAD''" req]
    by (simp add: handle_request_with_model_def Collection_handle_request_with_model_def)
  have acc: "fst (handle_request_with_model D r req meth m c) \<noteq> Inl (MethodNotAllowed S')"
    if nomna: "\<forall>k args S0. fst (model_call m k args c) \<noteq> Inl (MethodNotAllowed S0)"
    and nobuild: "\<forall>endpoint args S0.
                url_adapter_build (snd (model_call m ''make'' [input req] c)) endpoint args
                  \<noteq> Inl (MethodNotAllowed S0)"
    and ok: "meth \<in> S \<or> meth = ''HEAD''" for S'
  proof (cases "meth = ''POST''")
    case False
    have "Resource_handle_request_with_model D r req meth m c =
     (if meth = ''GET'' \<or> meth = ''HEAD'' then model_call m ''read'' [] c
      else if meth = ''DELETE'' then model_call m ''delete'' [] c
      else model_call m ''write'' [input req] c)"
      using Resource_accepts[OF S ok False] .
    then show ?thesis using nomna nonpost[OF False] by auto 
  next
    case True
    then have cm: "isinstance_Collection r \<and> ''make'' \<in> dom m"
      using S ok unfolding get_supported_methods_Some by auto
    then have "handle_request_with_model D r req meth m c = Collection_handle_request_with_model D r req meth m c"
      by (simp add: handle_request_with_model_def)
    then show ?thesis
      using make_path_not_refused[OF nomna nobuild True, of D r S'] cm
      by simp
  qed
  have hr: "handle_request D r req wrapper_args c0 = error_handler r (MethodNotAllowed S) c"
    if "compose_model D r wrapper_args c0 = (Inr m, c)" "meth = upper (request_method req)"
       "meth \<notin> S" "meth \<noteq> ''HEAD''"
    using that rej by (simp add: handle_request_def)
  show ?thesis
  proof (intro exI[of _ S] conjI)
    show "get_supported_methods D r (Some m) c = (Inr S, c)" by (rule S)
    show "meth \<notin> S \<and> meth \<noteq> ''HEAD'' \<longrightarrow>
          handle_request_with_model D r req meth m c = (Inl (MethodNotAllowed S), c)"
      using rej by blast
    show "(\<forall>k args S0. fst (model_call m k args c) \<noteq> Inl (MethodNotAllowed S0))
          \<and> (\<forall>endpoint args S0.
                url_adapter_build (snd (model_call m ''make'' [input req] c)) endpoint args
                  \<noteq> Inl (MethodNotAllowed S0))
        \<longrightarrow> ((\<exists>S'. fst (handle_request_with_model D r req meth m c) = Inl (MethodNotAllowed S'))
              \<longleftrightarrow> (meth \<notin> S \<and> meth \<noteq> ''HEAD''))"
    proof (intro impI iffI)
      assume H: "(\<forall>k args S0. fst (model_call m k args c) \<noteq> Inl (MethodNotAllowed S0))
          \<and> (\<forall>endpoint args S0.
                url_adapter_build (snd (model_call m ''make'' [input req] c)) endpoint args
                  \<noteq> Inl (MethodNotAllowed S0))"
      assume "\<exists>S'. fst (handle_request_with_model D r req meth m c) = Inl (MethodNotAllowed S')"
      then show "meth \<notin> S \<and> meth \<noteq> ''HEAD''" using acc H by blast
    next
      assume "meth \<notin> S \<and> meth \<noteq> ''HEAD''"
      then have "fst (handle_request_with_model D r req meth m c) = Inl (MethodNotAllowed S)"
        using rej by simp
      then show "\<exists>S'. fst (handle_request_with_model D r req meth m c) = Inl (MethodNotAllowed S')"
        by blast
    qed
    show "''write'' \<notin> dom m \<longrightarrow>
          handle_request_with_model D r req ''PUT'' m c = (Inl (MethodNotAllowed S), c)"
      using put rej by auto
    show "handle_request_with_model D r req ''HEAD'' m c = model_call m ''read'' [] c"
      by (rule hd)
    show "compose_model D r wrapper_args c0 = (Inr m, c) \<and> meth = upper (request_method req)
          \<and> meth \<notin> S \<and> meth \<noteq> ''HEAD'' \<longrightarrow>
          handle_request D r req wrapper_args c0 = error_handler r (MethodNotAllowed S) c"
      using hr by blast
  qed
qed

lemma ex_supported: "get_supported_methods ex_DataSetDataModel ex_readonly_resource (Some ex_readonly_model) ex_ctx = (Inr {''GET''}, ex_ctx)"
  by (simp add: get_supported_methods_def Resource_get_supported_methods_def
        isinstance_Collection_def ex_resource_def ex_readonly_resource_def ex_readonly_model_def)

theorem method_not_allowed_when_unsupported_witness:
  "(\<forall>k args S0. fst (model_call ex_readonly_model k args ex_ctx) \<noteq> Inl (MethodNotAllowed S0))
   \<and> (\<forall>endpoint args S0.
        url_adapter_build (snd (model_call ex_readonly_model ''make'' [input ex_put_request] ex_ctx))
          endpoint args \<noteq> Inl (MethodNotAllowed S0))
   \<and> ''write'' \<notin> dom ex_readonly_model
   \<and> compose_model ex_DataSetDataModel ex_readonly_resource None ex_ctx = (Inr ex_readonly_model, ex_ctx)
   \<and> ''PUT'' = upper (request_method ex_put_request)
   \<and> ''PUT'' \<notin> {''GET''}
   \<and> handle_request_with_model ex_DataSetDataModel ex_readonly_resource ex_put_request ''PUT''
        ex_readonly_model ex_ctx = (Inl (MethodNotAllowed {''GET''}), ex_ctx)
   \<and> handle_request ex_DataSetDataModel ex_readonly_resource ex_put_request None ex_ctx
       = error_handler ex_readonly_resource (MethodNotAllowed {''GET''}) ex_ctx"
proof -
  have h1: "\<forall>k args S0. fst (model_call ex_readonly_model k args ex_ctx) \<noteq> Inl (MethodNotAllowed S0)"
    by (simp add: model_call_def ex_readonly_model_def)
  have h2: "\<forall>endpoint args S0.
        url_adapter_build (snd (model_call ex_readonly_model ''make'' [input ex_put_request] ex_ctx))
          endpoint args \<noteq> Inl (MethodNotAllowed S0)"
    by (simp add: model_call_def ex_readonly_model_def ex_ctx_def)
  have h3: "''write'' \<notin> dom ex_readonly_model" by (simp add: ex_readonly_model_def)
  have h4: "compose_model ex_DataSetDataModel ex_readonly_resource None ex_ctx = (Inr ex_readonly_model, ex_ctx)"
    by (simp add: compose_model_def ex_readonly_resource_def ex_resource_def)
  have h5: "''PUT'' = upper (request_method ex_put_request)"
    by (simp add: ex_put_request_def upper_def char_upper_def)
  from method_not_allowed_when_unsupported[of ex_DataSetDataModel ex_readonly_resource ex_readonly_model ex_ctx "''PUT''"
             ex_put_request None ex_ctx]
  show ?thesis using h1 h2 h3 h4 h5 unfolding ex_supported by auto
qed

text \<open>
  C2 as the spec states it says that a \<open>HEAD\<close> request never yields
  \<open>MethodNotAllowed\<close>. The test lets \<open>HEAD\<close> through to \<open>model['read']()\<close>, and
  what that operation raises is the outcome: a \<open>read\<close> that raises \<open>MethodNotAllowed\<close>
  makes the \<open>HEAD\<close> request yield it.
\<close>

theorem head_request_method_not_allowed:
  "fst (handle_request_with_model ex_DataSetDataModel ex_refusing_resource ex_head_request ''HEAD''
          ex_refusing_model ex_ctx) = Inl (MethodNotAllowed {''GET''})
   \<and> fst (handle_request ex_DataSetDataModel ex_refusing_resource ex_head_request None ex_ctx)
       = Inl (MethodNotAllowed {''GET''})"
  by (simp add: handle_request_def handle_request_with_model_def compose_model_def
        Resource_handle_request_with_model_def get_supported_methods_def
        Resource_get_supported_methods_def isinstance_Collection_def model_call_def
        ex_refusing_resource_def ex_resource_def ex_refusing_model_def ex_head_request_def
        upper_def char_upper_def default_error_handler_def reraise_def)

section \<open>The error boundary of handle_request\<close>

lemma ex_GET: "upper (request_method ex_get_request) = ''GET''"
  by (simp add: ex_get_request_def upper_def char_upper_def)

lemma ex_dispatch_simps:
  "get_supported_methods D ex_resource = Resource_get_supported_methods D ex_resource"
  "handle_request_with_model D ex_resource = Resource_handle_request_with_model D ex_resource"
  by (simp_all add: get_supported_methods_def handle_request_with_model_def
        isinstance_Collection_def ex_resource_def)

text \<open>
  C4 (as the code has it). Every exception raised while the model is composed or the
  request is dispatched is caught by \<open>handle_request\<close> and handed, with the context
  of that moment, to the error handler of the resource; the outcome of \<open>handle_request\<close>
  is then the outcome of the error handler, its return value or the exception it raises.
  So nothing leaves \<open>handle_request\<close> when the error handler never raises. The default
  handler answers a lookup-style failure by raising \<open>NotFound\<close>, which is then the
  outcome of \<open>handle_request\<close>.
\<close>

theorem handle_request_hands_errors_to_handler:
  "(compose_model D r wrapper_args c = (Inl e, c1) \<longrightarrow>
      handle_request D r req wrapper_args c = error_handler r e c1)
   \<and> (compose_model D r wrapper_args c = (Inr m, c1)
        \<and> handle_request_with_model D r req (upper (request_method req)) m c1 = (Inl e, c2) \<longrightarrow>
      handle_request D r req wrapper_args c = error_handler r e c2)
   \<and> (compose_model D r wrapper_args c = (Inr m, c1)
        \<and> handle_request_with_model D r req (upper (request_method req)) m c1 = (Inr v, c2) \<longrightarrow>
      handle_request D r req wrapper_args c = (Inr v, c2))
   \<and> ((\<forall>err c'. \<exists>v' c''. error_handler r err c' = (Inr v', c'')) \<longrightarrow>
      (\<exists>v' c''. handle_request D r req wrapper_args c = (Inr v', c'')))
   \<and> (error_handler r = default_error_handler unregistered
        \<and> compose_model D r wrapper_args c = (Inr m, c1)
        \<and> handle_request_with_model D r req (upper (request_method req)) m c1 = (Inl e, c2)
        \<and> is_LookupError e \<longrightarrow>
      handle_request D r req wrapper_args c = (Inl NotFound, c2))"
proof (intro conjI impI)
  assume "\<forall>err c'. \<exists>v' c''. error_handler r err c' = (Inr v', c'')"
  then show "\<exists>v' c''. handle_request D r req wrapper_args c = (Inr v', c'')"
    by (auto simp add: handle_request_def Let_def split: prod.splits sum.splits)
qed (simp_all add: handle_request_def default_error_handler_def on_lookup_err_def)

theorem handle_request_hands_errors_to_handler_witness:
  "compose_model ex_DataSetDataModel ex_failing_lazy_resource None ex_ctx = (Inl KeyError, ex_ctx)
   \<and> handle_request ex_DataSetDataModel ex_failing_lazy_resource ex_get_request None ex_ctx
       = error_handler ex_failing_lazy_resource KeyError ex_ctx
   \<and> error_handler ex_missing_resource = default_error_handler reraise
   \<and> compose_model ex_DataSetDataModel ex_missing_resource None ex_ctx = (Inr ex_missing_model, ex_ctx)
   \<and> handle_request_with_model ex_DataSetDataModel ex_missing_resource ex_get_request
        (upper (request_method ex_get_request)) ex_missing_model ex_ctx = (Inl KeyError, ex_ctx)
   \<and> is_LookupError KeyError
   \<and> handle_request ex_DataSetDataModel ex_missing_resource ex_get_request None ex_ctx
       = (Inl NotFound, ex_ctx)
   \<and> compose_model ex_DataSetDataModel ex_readonly_resource None ex_ctx = (Inr ex_readonly_model, ex_ctx)
   \<and> handle_request_with_model ex_DataSetDataModel ex_readonly_resource ex_get_request
        (upper (request_method ex_get_request)) ex_readonly_model ex_ctx = (Inr (VStr ''data''), ex_ctx)
   \<and> handle_request ex_DataSetDataModel ex_readonly_resource ex_get_request None ex_ctx
       = (Inr (VStr ''data''), ex_ctx)
   \<and> (\<forall>err c'. \<exists>v' c''. error_handler ex_quiet_resource err c' = (Inr v', c''))
   \<and> (\<exists>v' c''. handle_request ex_DataSetDataModel ex_quiet_resource ex_get_request None ex_ctx
                  = (Inr v', c''))"
proof -
  have a1: "compose_model ex_DataSetDataModel ex_failing_lazy_resource None ex_ctx = (Inl KeyError, ex_ctx)"
    by (simp add: compose_model_def ex_failing_lazy_resource_def ex_resource_def)
  have b0: "error_handler ex_missing_resource = default_error_handler reraise"
    by (simp add: ex_missing_resource_def ex_resource_def)
  have b1: "compose_model ex_DataSetDataModel ex_missing_resource None ex_ctx = (Inr ex_missing_model, ex_ctx)"
    by (simp add: compose_model_def ex_missing_resource_def ex_resource_def)
  have b2: "handle_request_with_model ex_DataSetDataModel ex_missing_resource ex_get_request
        (upper (request_method ex_get_request)) ex_missing_model ex_ctx = (Inl KeyError, ex_ctx)"
    by (simp add: ex_GET handle_request_with_model_def Resource_handle_request_with_model_def
          get_supported_methods_def Resource_get_supported_methods_def isinstance_Collection_def
          model_call_def ex_missing_resource_def ex_resource_def ex_missing_model_def)
  have c1: "compose_model ex_DataSetDataModel ex_readonly_resource None ex_ctx = (Inr ex_readonly_model, ex_ctx)"
    by (simp add: compose_model_def ex_readonly_resource_def ex_resource_def)
  have c2: "handle_request_with_model ex_DataSetDataModel ex_readonly_resource ex_get_request
        (upper (request_method ex_get_request)) ex_readonly_model ex_ctx = (Inr (VStr ''data''), ex_ctx)"
    by (simp add: ex_GET handle_request_with_model_def Resource_handle_request_with_model_def
          get_supported_methods_def Resource_get_supported_methods_def isinstance_Collection_def
          model_call_def ex_readonly_resource_def ex_resource_def ex_readonly_model_def)
  have d1: "\<forall>err c'. \<exists>v' c''. error_handler ex_quiet_resource err c' = (Inr v', c'')"
    by (simp add: ex_quiet_resource_def ex_resource_def ex_quiet_handler_def)
  note A = handle_request_hands_errors_to_handler[where D = ex_DataSetDataModel and r = ex_failing_lazy_resource
                and wrapper_args = None and c = ex_ctx and e = KeyError and ?c1.0 = ex_ctx
                and req = ex_get_request]
  note B = handle_request_hands_errors_to_handler[where D = ex_DataSetDataModel and r = ex_missing_resource
                and wrapper_args = None and c = ex_ctx and e = KeyError and ?c1.0 = ex_ctx
                and req = ex_get_request and m = ex_missing_model and ?c2.0 = ex_ctx
                and unregistered = reraise]
  note C = handle_request_hands_errors_to_handler[where D = ex_DataSetDataModel and r = ex_readonly_resource
                and wrapper_args = None and c = ex_ctx and ?c1.0 = ex_ctx
                and req = ex_get_request and m = ex_readonly_model and ?c2.0 = ex_ctx
                and v = "VStr ''data''"]
  note D = handle_request_hands_errors_to_handler[where D = ex_DataSetDataModel and r = ex_quiet_resource
                and wrapper_args = None and c = ex_ctx and req = ex_get_request]
  from A a1 have ra: "handle_request ex_DataSetDataModel ex_failing_lazy_resource ex_get_request None ex_ctx
       = error_handler ex_failing_lazy_resource KeyError ex_ctx" by blast
  have b3: "is_LookupError KeyError" by simp
  from B b0 b1 b2 b3 have rb: "handle_request ex_DataSetDataModel ex_missing_resource ex_get_request None ex_ctx
       = (Inl NotFound, ex_ctx)" by blast
  from C c1 c2 have rc: "handle_request ex_DataSetDataModel ex_readonly_resource ex_get_request None ex_ctx
       = (Inr (VStr ''data''), ex_ctx)" by blast
  from D d1 have rd: "\<exists>v' c''. handle_request ex_DataSetDataModel ex_quiet_resource ex_get_request None ex_ctx
                  = (Inr v', c'')" by blast
  show ?thesis using a1 b0 b1 b2 c1 c2 d1 ra rb rc rd by simp
qed

text \<open>
  C4 as the spec states it says that nothing escapes from \<open>handle_request\<close>. With the
  default error handler, a \<open>GET\<close> whose \<open>read\<close> raises \<open>KeyError\<close> ends in
  \<open>_on_lookup_err\<close>, which raises \<open>NotFound\<close> inside the \<open>except\<close> block; that
  exception leaves \<open>handle_request\<close>.
\<close>

theorem handle_request_lets_NotFound_escape:
  "fst (handle_request ex_DataSetDataModel ex_missing_resource ex_get_request None ex_ctx) = Inl NotFound"
  by (simp add: handle_request_def handle_request_with_model_def compose_model_def
        Resource_handle_request_with_model_def get_supported_methods_def
        Resource_get_supported_methods_def isinstance_Collection_def model_call_def
        ex_missing_resource_def ex_resource_def ex_missing_model_def ex_get_request_def
        upper_def char_upper_def default_error_handler_def on_lookup_err_def)

section \<open>The model of a lazy resource\<close>





section \<open>Creation through a collection\<close>

lemma dict_keys_dict_set: "set (dict_keys (dict_set d k v)) = insert k (set (dict_keys d))"
  by (induction d k v rule: dict_set.induct) (auto simp add: dict_keys_def)

lemma bind_url_args_keys_acc:
  "set (dict_keys (fold (\<lambda>(k, v) acc. dict_set acc (f k) v) items acc0))
     = f ` set (dict_keys items) \<union> set (dict_keys acc0)"
proof (induction items arbitrary: acc0)
  case Nil
  then show ?case by (simp add: dict_keys_def)
next
  case (Cons kv items)
  obtain k v where kv: "kv = (k, v)" by (cases kv)
  show ?case using Cons[of "dict_set acc0 (f k) v"]
    by (simp add: kv dict_keys_dict_set) (auto simp add: dict_keys_def)
qed

lemma bind_url_args_keys:
  "set (dict_keys (bind_url_args bind_args items))
     = (\<lambda>k. case map_of bind_args k of Some b \<Rightarrow> b | None \<Rightarrow> k) ` set (dict_keys items)"
  unfolding bind_url_args_def
  using bind_url_args_keys_acc[of "\<lambda>k. case map_of bind_args k of Some b \<Rightarrow> b | None \<Rightarrow> k" items "[]"]
  by (simp add: dict_keys_def)

text \<open>
  C10. A \<open>POST\<close> handled by a collection whose model has \<open>make\<close> calls
  \<open>make(request.input)\<close>. When it returns, the response status is 201 unless a status
  was already set, and the returned value is the result of the request. When the value is
  a mapping, a URL is built for the collected resource from the arguments whose names are
  the field names translated through the binding; the URL becomes the \<open>Location\<close>
  header unless one is set, and when the build raises \<open>URLBuildError\<close> the request
  succeeds all the same with the headers unchanged. When \<open>make\<close> raises, the dispatch
  raises the same.
\<close>

theorem collection_post_make:
  "(collects r = Some (child, bind_args) \<and> ''make'' \<in> dom m
      \<and> model_call m ''make'' [input req] c = (Inr ret_data, c1)
      \<and> c2 = c1\<lparr>response_status := Some (case response_status c1 of None \<Rightarrow> 201 | Some s \<Rightarrow> s)\<rparr>
    \<longrightarrow>
      (ret_data = VDict items
         \<and> url_adapter_build c1 child (bind_url_args bind_args items) = Inr url \<longrightarrow>
       handle_request_with_model D r req ''POST'' m c
         = (Inr ret_data,
            c2\<lparr>response_headers := dict_setdefault (response_headers c1) ''Location'' url\<rparr>))
      \<and> (ret_data = VDict items
         \<and> url_adapter_build c1 child (bind_url_args bind_args items) = Inl URLBuildError \<longrightarrow>
       handle_request_with_model D r req ''POST'' m c = (Inr ret_data, c2)
       \<and> response_headers c2 = response_headers c1)
      \<and> ((\<forall>d. ret_data \<noteq> VDict d) \<longrightarrow>
       handle_request_with_model D r req ''POST'' m c = (Inr ret_data, c2)))
   \<and> (collects r = Some (child, bind_args) \<and> ''make'' \<in> dom m
      \<and> model_call m ''make'' [input req] c = (Inl e, c1) \<longrightarrow>
       handle_request_with_model D r req ''POST'' m c = (Inl e, c1))
   \<and> set (dict_keys (bind_url_args bind_args items))
       = (\<lambda>k. case map_of bind_args k of Some b \<Rightarrow> b | None \<Rightarrow> k) ` set (dict_keys items)"
proof (intro conjI impI)
  show "set (dict_keys (bind_url_args bind_args items))
       = (\<lambda>k. case map_of bind_args k of Some b \<Rightarrow> b | None \<Rightarrow> k) ` set (dict_keys items)"
    by (rule bind_url_args_keys)
qed (auto simp add: handle_request_with_model_def isinstance_Collection_def
       Collection_handle_request_with_model_def Let_def split: pyval.splits)


theorem collection_post_make_witness:
  "collects ex_collection = Some (''item'', [(''id'', ''item_id'')])
   \<and> ''make'' \<in> dom ex_make_model
   \<and> model_call ex_make_model ''make'' [input ex_post_request] ex_routed_ctx
       = (Inr (VDict [(''id'', VInt 7)]), ex_routed_ctx)
   \<and> bind_url_args [(''id'', ''item_id'')] [(''id'', VInt 7)] = [(''item_id'', VInt 7)]
   \<and> url_adapter_build ex_routed_ctx ''item'' [(''item_id'', VInt 7)] = Inr ''/items/7''
   \<and> handle_request_with_model ex_DataSetDataModel ex_collection ex_post_request ''POST''
        ex_make_model ex_routed_ctx
       = (Inr (VDict [(''id'', VInt 7)]),
          ex_routed_ctx\<lparr>response_status := Some 201,
                         response_headers := [(''Location'', ''/items/7'')]\<rparr>)
   \<and> model_call ex_make_model ''make'' [input ex_post_request] ex_ctx
       = (Inr (VDict [(''id'', VInt 7)]), ex_ctx)
   \<and> url_adapter_build ex_ctx ''item'' [(''item_id'', VInt 7)] = Inl URLBuildError
   \<and> handle_request_with_model ex_DataSetDataModel ex_collection ex_post_request ''POST''
        ex_make_model ex_ctx
       = (Inr (VDict [(''id'', VInt 7)]), ex_ctx\<lparr>response_status := Some 201\<rparr>)
   \<and> response_headers (ex_ctx\<lparr>response_status := Some 201\<rparr>) = []
   \<and> ''make'' \<in> dom ex_make_number_model
   \<and> model_call ex_make_number_model ''make'' [input ex_post_request] ex_ctx = (Inr (VInt 7), ex_ctx)
   \<and> handle_request_with_model ex_DataSetDataModel ex_collection ex_post_request ''POST''
        ex_make_number_model ex_ctx
       = (Inr (VInt 7), ex_ctx\<lparr>response_status := Some 201\<rparr>)
   \<and> ''make'' \<in> dom ex_make_failing_model
   \<and> model_call ex_make_failing_model ''make'' [input ex_post_request] ex_ctx = (Inl ValueError, ex_ctx)
   \<and> handle_request_with_model ex_DataSetDataModel ex_collection ex_post_request ''POST''
        ex_make_failing_model ex_ctx
       = (Inl ValueError, ex_ctx)"
proof -
  have col: "collects ex_collection = Some (''item'', [(''id'', ''item_id'')])"
    by (simp add: ex_collection_def ex_resource_def)
  have mk: "''make'' \<in> dom ex_make_model" "''make'' \<in> dom ex_make_number_model"
           "''make'' \<in> dom ex_make_failing_model"
    by (simp_all add: ex_make_model_def ex_make_number_model_def ex_make_failing_model_def)
  have call: "model_call ex_make_model ''make'' [input ex_post_request] c
       = (Inr (VDict [(''id'', VInt 7)]), c)"
       "model_call ex_make_number_model ''make'' [input ex_post_request] c = (Inr (VInt 7), c)"
       "model_call ex_make_failing_model ''make'' [input ex_post_request] c = (Inl ValueError, c)"
    for c
    by (simp_all add: model_call_def ex_make_model_def ex_make_number_model_def
          ex_make_failing_model_def)
  have args: "bind_url_args [(''id'', ''item_id'')] [(''id'', VInt 7)] = [(''item_id'', VInt 7)]"
    by (simp add: bind_url_args_def)
  have routed: "url_adapter_build ex_routed_ctx ''item'' [(''item_id'', VInt 7)] = Inr ''/items/7''"
    by (simp add: ex_routed_ctx_def)
  have unrouted: "url_adapter_build ex_ctx ''item'' [(''item_id'', VInt 7)] = Inl URLBuildError"
    by (simp add: ex_ctx_def)
  have st: "response_status ex_routed_ctx = None" "response_status ex_ctx = None"
           "response_headers ex_routed_ctx = []" "response_headers ex_ctx = []"
    by (simp_all add: ex_routed_ctx_def ex_ctx_def)
  note A = collection_post_make[where r = ex_collection and child = "''item''" and bind_args = "[(''id'', ''item_id'')]"
        and m = ex_make_model and req = ex_post_request and c = ex_routed_ctx
        and ret_data = "VDict [(''id'', VInt 7)]" and ?c1.0 = ex_routed_ctx
        and ?c2.0 = "ex_routed_ctx\<lparr>response_status := Some 201\<rparr>"
        and items = "[(''id'', VInt 7)]" and url = "''/items/7''" and D = ex_DataSetDataModel]
  note B = collection_post_make[where r = ex_collection and child = "''item''" and bind_args = "[(''id'', ''item_id'')]"
        and m = ex_make_model and req = ex_post_request and c = ex_ctx
        and ret_data = "VDict [(''id'', VInt 7)]" and ?c1.0 = ex_ctx
        and ?c2.0 = "ex_ctx\<lparr>response_status := Some 201\<rparr>"
        and items = "[(''id'', VInt 7)]" and D = ex_DataSetDataModel]
  note C = collection_post_make[where r = ex_collection and child = "''item''" and bind_args = "[(''id'', ''item_id'')]"
        and m = ex_make_number_model and req = ex_post_request and c = ex_ctx
        and ret_data = "VInt 7" and ?c1.0 = ex_ctx
        and ?c2.0 = "ex_ctx\<lparr>response_status := Some 201\<rparr>" and D = ex_DataSetDataModel]
  note E = collection_post_make[where r = ex_collection and child = "''item''" and bind_args = "[(''id'', ''item_id'')]"
        and m = ex_make_failing_model and req = ex_post_request and c = ex_ctx
        and e = ValueError and ?c1.0 = ex_ctx and D = ex_DataSetDataModel]
  have ra: "handle_request_with_model ex_DataSetDataModel ex_collection ex_post_request ''POST''
        ex_make_model ex_routed_ctx
       = (Inr (VDict [(''id'', VInt 7)]),
          ex_routed_ctx\<lparr>response_status := Some 201,
                         response_headers := [(''Location'', ''/items/7'')]\<rparr>)"
    using A col mk call args routed st by (simp add: dict_setdefault_def)
  have rb: "handle_request_with_model ex_DataSetDataModel ex_collection ex_post_request ''POST''
        ex_make_model ex_ctx
       = (Inr (VDict [(''id'', VInt 7)]), ex_ctx\<lparr>response_status := Some 201\<rparr>)"
    using B col mk call args unrouted st by simp
  have rc: "handle_request_with_model ex_DataSetDataModel ex_collection ex_post_request ''POST''
        ex_make_number_model ex_ctx
       = (Inr (VInt 7), ex_ctx\<lparr>response_status := Some 201\<rparr>)"
    using C col mk call st by simp
  have re: "handle_request_with_model ex_DataSetDataModel ex_collection ex_post_request ''POST''
        ex_make_failing_model ex_ctx
       = (Inl ValueError, ex_ctx)"
    using E col mk call by simp
  show ?thesis using col mk call args routed unrouted st ra rb rc re by simp
qed

section \<open>Registration of converter specifications\<close>

text \<open>
  C3. A specification that is neither a callable, nor a string of the converter grammar,
  nor a singleton list of a valid specification, must make the registration raise and
  must never be stored. The loop of \<open>__register_spec\<close> tests \<open>item_spec is False\<close>
  where the result of \<open>validate_item_spec\<close> is \<open>new_item_spec\<close>: registering the
  two-element list \<open>[int, int]\<close> for the field \<open>ids\<close> raises nothing and stores
  \<open>False\<close> as the specification of \<open>ids\<close>, and so do the number 5 and the string
  \<open>1abc\<close>. The registration raises only when the caller passes \<open>False\<close> itself. A
  well-formed specification is stored in its normal form.
\<close>

theorem enforce_stores_malformed_spec:
  "enforce (Validator True) ex_resource [(''ids'', Lst [Callable ex_int, Callable ex_int])]
     = Inr ((Validator True)\<lparr>validation_specs := [Some ''item'' \<mapsto> [(''ids'', PyFalse)]]\<rparr>)
   \<and> validate_item_spec (Lst [Callable ex_int, Callable ex_int]) = PyFalse
   \<and> enforce (Validator True) ex_resource [(''ids'', PyObj (VInt 5))]
       = Inr ((Validator True)\<lparr>validation_specs := [Some ''item'' \<mapsto> [(''ids'', PyFalse)]]\<rparr>)
   \<and> enforce (Validator True) ex_resource [(''ids'', Str ''1abc'')]
       = Inr ((Validator True)\<lparr>validation_specs := [Some ''item'' \<mapsto> [(''ids'', PyFalse)]]\<rparr>)
   \<and> enforce (Validator True) ex_resource [(''ids'', PyFalse)] = Inl InvalidSpecificationError
   \<and> enforce (Validator True) ex_resource [(''ids'', Lst [Str ''int(min=1)''])]
       = Inr ((Validator True)\<lparr>validation_specs :=
                [Some ''item'' \<mapsto> [(''ids'', Lst [ConverterSpec ''int'' (Some ''min=1'')])]]\<rparr>)"
  by (simp add: enforce_def register_spec_def Validator_def ex_resource_def dict_update_def
        converter_re_fullmatch_def name_start_chars_def name_chars_def)

section \<open>Dictionaries\<close>









section \<open>Precedence of converter specifications\<close>




section \<open>Restrictions\<close>












text \<open>
  C8 (as the code has it). \<open>restrict("*id", "name", strip_extra=False)\<close> registers
  \<open>id\<close> as required and \<open>name\<close> as allowed but not required. The input
  \<open>{"id": "1", "extra": "y"}\<close> raises \<open>UnexpectedFields\<close> for \<open>extra\<close>, and so does
  \<open>{"id": "1", "name": "a", "extra": "y"}\<close>; with \<open>strip_extra=True\<close> the latter
  validates and the output omits \<open>extra\<close>. An input without \<open>id\<close> raises
  \<open>MissingFields\<close> for \<open>id\<close>, and an input without \<open>name\<close> validates.
\<close>

theorem restrict_examples:
  "restriction_specs ex_restricting_validator = [''item'' \<mapsto> [(''id'', True), (''name'', False)]]
   \<and> validate ex_restricting_validator ex_resource [(''id'', VStr ''1''), (''extra'', VStr ''y'')]
       = Inl (UnexpectedFields [''extra''])
   \<and> validate ex_restricting_validator ex_resource
        [(''id'', VStr ''1''), (''name'', VStr ''a''), (''extra'', VStr ''y'')]
       = Inl (UnexpectedFields [''extra''])
   \<and> validate ex_stripping_validator ex_resource
        [(''id'', VStr ''1''), (''name'', VStr ''a''), (''extra'', VStr ''y'')]
       = Inr [(''id'', VStr ''1''), (''name'', VStr ''a'')]
   \<and> validate ex_restricting_validator ex_resource [(''name'', VStr ''a'')]
       = Inl (MissingFields [''id''])
   \<and> validate ex_restricting_validator ex_resource [(''id'', VStr ''1'')]
       = Inr [(''id'', VStr ''1'')]"
  by (simp add: ex_restricting_validator_def ex_stripping_validator_def restrict_def
        Validator_def conv_field_def dict_update_def validate_def handle_restrictions_def
        merged_spec_def dict_keys_def ex_resource_def)

text \<open>
  C8 as the spec states it expects \<open>MissingFields\<close> for \<open>name\<close> on the input
  \<open>{"id": "1", "extra": "y"}\<close>. The extras are tested first and \<open>strip_extra\<close> is
  not set, so \<open>UnexpectedFields\<close> for \<open>extra\<close> is raised.
\<close>

theorem restrict_example_unexpected_not_missing:
  "validate (restrict (Validator True) ex_resource [''*id'', ''name''] False) ex_resource
     [(''id'', VStr ''1''), (''extra'', VStr ''y'')]
     = Inl (UnexpectedFields [''extra''])
   \<and> UnexpectedFields [''extra''] \<noteq> MissingFields [''name'']"
  by (simp add: restrict_def
        Validator_def conv_field_def dict_update_def validate_def handle_restrictions_def
        merged_spec_def dict_keys_def ex_resource_def)


section \<open>Conversion\<close>










end
